theory Spec2Isabelle
  imports Complex_Main
begin

section \<open>Numbers\<close>

text \<open>
  The numbers of \<^verbatim>\<open>TileLayer.ts\<close> are IEEE doubles. The embedding takes the finite ones as
  exact reals (no rounding, no overflow). A value that \<^verbatim>\<open>Math.floor\<close> or \<^verbatim>\<open>Math.ceil\<close>
  produced is an \<open>int\<close>.

  Where a division of the source can leave the finite numbers (the divisor is a difference
  of tile indices, which can be zero) the operands are of type \<open>number\<close>, which has the
  three special values of a double. The sign of a zero is not kept: every zero divisor
  that occurs is a difference of two equal integers, which is \<open>+0\<close>.
\<close>

datatype number = Num real | NaN | PosInfinity | NegInfinity

fun nneg :: "number \<Rightarrow> number" where
  "nneg (Num a) = Num (- a)"
| "nneg NaN = NaN"
| "nneg PosInfinity = NegInfinity"
| "nneg NegInfinity = PosInfinity"

fun nadd :: "number \<Rightarrow> number \<Rightarrow> number" where
  "nadd (Num a) (Num b) = Num (a + b)"
| "nadd NaN _ = NaN"
| "nadd _ NaN = NaN"
| "nadd PosInfinity NegInfinity = NaN"
| "nadd NegInfinity PosInfinity = NaN"
| "nadd PosInfinity _ = PosInfinity"
| "nadd _ PosInfinity = PosInfinity"
| "nadd NegInfinity _ = NegInfinity"
| "nadd _ NegInfinity = NegInfinity"

definition nsub :: "number \<Rightarrow> number \<Rightarrow> number" where
  "nsub a b = nadd a (nneg b)"

fun nmul :: "number \<Rightarrow> number \<Rightarrow> number" where
  "nmul (Num a) (Num b) = Num (a * b)"
| "nmul NaN _ = NaN"
| "nmul _ NaN = NaN"
| "nmul (Num a) PosInfinity = (if a = 0 then NaN else if 0 < a then PosInfinity else NegInfinity)"
| "nmul (Num a) NegInfinity = (if a = 0 then NaN else if 0 < a then NegInfinity else PosInfinity)"
| "nmul PosInfinity (Num b) = (if b = 0 then NaN else if 0 < b then PosInfinity else NegInfinity)"
| "nmul NegInfinity (Num b) = (if b = 0 then NaN else if 0 < b then NegInfinity else PosInfinity)"
| "nmul PosInfinity PosInfinity = PosInfinity"
| "nmul NegInfinity NegInfinity = PosInfinity"
| "nmul PosInfinity NegInfinity = NegInfinity"
| "nmul NegInfinity PosInfinity = NegInfinity"

fun ndiv :: "number \<Rightarrow> number \<Rightarrow> number" where
  "ndiv (Num a) (Num b) =
     (if b \<noteq> 0 then Num (a / b)
      else if a = 0 then NaN else if 0 < a then PosInfinity else NegInfinity)"
| "ndiv NaN _ = NaN"
| "ndiv _ NaN = NaN"
| "ndiv (Num a) PosInfinity = Num 0"
| "ndiv (Num a) NegInfinity = Num 0"
| "ndiv PosInfinity (Num b) = (if 0 \<le> b then PosInfinity else NegInfinity)"
| "ndiv NegInfinity (Num b) = (if 0 \<le> b then NegInfinity else PosInfinity)"
| "ndiv PosInfinity PosInfinity = NaN"
| "ndiv PosInfinity NegInfinity = NaN"
| "ndiv NegInfinity PosInfinity = NaN"
| "ndiv NegInfinity NegInfinity = NaN"

fun nabs :: "number \<Rightarrow> number" where
  "nabs (Num a) = Num \<bar>a\<bar>"
| "nabs NaN = NaN"
| "nabs _ = PosInfinity"

text \<open>
  The JavaScript expression \<^verbatim>\<open>a % 1\<close> on a finite \<open>a\<close>: the remainder has the sign of
  the dividend, so it is \<open>a\<close> minus \<open>a\<close> truncated toward zero.
\<close>

definition rem1 :: "real \<Rightarrow> real" where
  "rem1 a = a - of_int (if 0 \<le> a then \<lfloor>a\<rfloor> else \<lceil>a\<rceil>)"

section \<open>Helpers of \<^verbatim>\<open>../util\<close>\<close>

type_synonym Point = "real \<times> real"
type_synonym NPoint = "number \<times> number"

text \<open>
  Modelled from the spec: the vector helpers \<^verbatim>\<open>add\<close>, \<^verbatim>\<open>subtract\<close>, \<^verbatim>\<open>multiply\<close> and
  \<^verbatim>\<open>divide\<close> of \<^verbatim>\<open>../util\<close> are not among the sources. They are taken as componentwise
  arithmetic on points, a plain number as second operand applying to both components
  (\<open>scalar\<close>), which is what the normalised distance from the viewport centre of the
  specification's section 4.4 needs.
\<close>

definition scalar :: "number \<Rightarrow> NPoint" where
  "scalar n = (n, n)"

definition add_pt :: "NPoint \<Rightarrow> NPoint \<Rightarrow> NPoint" where
  "add_pt a b = (nadd (fst a) (fst b), nadd (snd a) (snd b))"

definition subtract_pt :: "NPoint \<Rightarrow> NPoint \<Rightarrow> NPoint" where
  "subtract_pt a b = (nsub (fst a) (fst b), nsub (snd a) (snd b))"

definition multiply_pt :: "NPoint \<Rightarrow> NPoint \<Rightarrow> NPoint" where
  "multiply_pt a b = (nmul (fst a) (fst b), nmul (snd a) (snd b))"

definition divide_pt :: "NPoint \<Rightarrow> NPoint \<Rightarrow> NPoint" where
  "divide_pt a b = (ndiv (fst a) (fst b), ndiv (snd a) (snd b))"

text \<open>A pair of tile indices as a point.\<close>

definition tile_pt :: "int \<times> int \<Rightarrow> NPoint" where
  "tile_pt t = (Num (of_int (fst t)), Num (of_int (snd t)))"

section \<open>Data\<close>

text \<open>
  Record fields carry a prefix, since \<open>zoom\<close>, \<open>tileSize\<close>, \<open>width\<close>, \<open>height\<close>, \<open>x\<close> and
  \<open>y\<close> are fields of several objects of the source and names of its variables:
  \<open>opt_\<close> for \<^verbatim>\<open>TileLayerOptions\<close>, \<open>vs_\<close> for the view state, \<open>tg_\<close> for the object
  \<^verbatim>\<open>getTiles\<close> returns, \<open>cv_\<close> for the frame buffer canvas, \<open>fb_\<close> for the object
  \<^verbatim>\<open>getFallbackTile\<close> returns, \<open>rc_\<close> for \<^verbatim>\<open>LayerRenderContext\<close>, \<open>pc_\<close> for
  \<^verbatim>\<open>LayerPreloadContext\<close>. The identifier a tile source returns is opaque, of type \<open>'k\<close>
  (a string in the source); an image is of type \<open>'img\<close>.
\<close>

record 'k TileLayerOptions =
  opt_source :: "int \<Rightarrow> int \<Rightarrow> int \<Rightarrow> 'k"
  opt_tileSize :: "real option"
  opt_minZoom :: "real option"
  opt_maxZoom :: "real option"
  opt_bounds :: "(Point \<times> Point) option"

record ViewState =
  vs_zoom :: real
  vs_center :: Point
  vs_width :: real
  vs_height :: real
  vs_debug :: bool

record TileGrid =
  tg_tileSize :: real
  tg_tileTopLeft :: "int \<times> int"
  tg_tileBottomRight :: "int \<times> int"
  tg_zoom :: int
  tg_renderedTileSize :: real

text \<open>The options object of a \<^verbatim>\<open>getImage\<close> call; an absent key is \<open>None\<close>.\<close>

record ImageOptions =
  priority :: "number option"
  cacheOnly :: "bool option"
  preload_flag :: "bool option"

type_synonym 'k request = "'k \<times> ImageOptions"

record 'img FallbackTile =
  fb_image :: 'img
  fb_scale :: real
  fb_x :: real
  fb_y :: real

text \<open>
  The frame buffer is a canvas. \<open>cv_width\<close> and \<open>cv_height\<close> are the numbers that the source
  reads from \<^verbatim>\<open>buffer.width\<close> and \<^verbatim>\<open>buffer.height\<close> and that lines 94, 95, 240 and 241 assign to
  them. A canvas holds unsigned integers: what the platform makes of an assigned number
  that is negative or has a fraction (an \<^verbatim>\<open>HTMLCanvasElement\<close> falls back to 300 by 150 or
  truncates, an \<^verbatim>\<open>OffscreenCanvas\<close> throws \<^verbatim>\<open>TypeError\<close> or truncates) is no part of
  \<^verbatim>\<open>TileLayer.ts\<close>, and a buffer with such a number stands for the assignment only. What is
  drawn on a canvas is the sequence of calls on its 2D context. The same type of calls
  serves for the destination context. \<open>DrawBuffer\<close> is \<^verbatim>\<open>context.drawImage(buffer, ...)\<close>;
  \<open>FillText\<close> keeps the triple \<open>(x, y, zoom)\<close> that the label of the debug grid prints.
\<close>

record Canvas =
  cv_width :: real
  cv_height :: real

datatype 'img op =
    FillStyle string
  | StrokeStyle string
  | FillRect real real real real
  | ClearRect real real real real
  | DrawImage 'img real real real real
  | DrawImageSub 'img real real real real real real real real
  | DrawBuffer real real real real real real real real
  | Save
  | Restore
  | LineWidth real
  | TextAlign string
  | TextBaseline string
  | Font string
  | StrokeRect real real real real
  | FillText "int \<times> int \<times> int" real real

record ('k, 'img) LayerRenderContext =
  rc_state :: ViewState
  rc_project :: "Point \<Rightarrow> Point"
  rc_getImage :: "'k \<Rightarrow> ImageOptions \<Rightarrow> 'img option"
  rc_reason :: string
  rc_backgroundColor :: "string option"

record ('k, 'img) LayerPreloadContext =
  pc_state :: ViewState
  pc_project :: "Point \<Rightarrow> Point"
  pc_getImage :: "'k \<Rightarrow> ImageOptions \<Rightarrow> 'img option"

text \<open>
  \<open>WrongTileSize\<close> is the \<^verbatim>\<open>Error('Wrong tile size')\<close> that \<^verbatim>\<open>getTiles\<close> throws.
  \<open>TilesNotFinite\<close> marks the one place where the source leaves the numbers of the
  embedding: a rendered tile size of zero, by which lines 57 and 58 divide.
\<close>

datatype error = WrongTileSize | TilesNotFinite

section \<open>\<^verbatim>\<open>getTiles\<close> (lines 26 to 67)\<close>

definition tileSize_of :: "'k TileLayerOptions \<Rightarrow> real" where
  "tileSize_of options = (case opt_tileSize options of None \<Rightarrow> 256 | Some t \<Rightarrow> t)"

definition renderedTileSize_of :: "real \<Rightarrow> real \<Rightarrow> real" where
  "renderedTileSize_of zoom tileSize =
     (if rem1 zoom = 0 then tileSize else 0.5 * (2 powr (rem1 zoom)) * tileSize)"

definition getTiles ::
  "'k TileLayerOptions \<Rightarrow> ViewState \<Rightarrow> (Point \<Rightarrow> Point) \<Rightarrow> error + TileGrid" where
  "getTiles options state project =
     (let zoom = \<lceil>vs_zoom state\<rceil>;
          tileSize = tileSize_of options;
          renderedTileSize = renderedTileSize_of (vs_zoom state) tileSize
      in if renderedTileSize < tileSize / 2 then Inl WrongTileSize
         else
           let center = project (vs_center state);
               boundsTopLeft =
                 project (case opt_bounds options of None \<Rightarrow> (0, 0) | Some b \<Rightarrow> fst b);
               boundsBottomRight =
                 project (case opt_bounds options of None \<Rightarrow> (0, 0) | Some b \<Rightarrow> snd b);
               topLeftX = max (fst center - vs_width state / 2) (fst boundsTopLeft);
               topLeftY = max (snd center - vs_height state / 2) (snd boundsTopLeft);
               bottomRightX = min (fst center + vs_width state / 2) (fst boundsBottomRight) - 1;
               bottomRightY = min (snd center + vs_height state / 2) (snd boundsBottomRight) - 1
           in if renderedTileSize = 0 then Inl TilesNotFinite
              else Inr \<lparr>tg_tileSize = tileSize,
                        tg_tileTopLeft =
                          (\<lfloor>topLeftX / renderedTileSize\<rfloor>, \<lfloor>topLeftY / renderedTileSize\<rfloor>),
                        tg_tileBottomRight =
                          (\<lfloor>bottomRightX / renderedTileSize\<rfloor>,
                           \<lfloor>bottomRightY / renderedTileSize\<rfloor>),
                        tg_zoom = zoom,
                        tg_renderedTileSize = renderedTileSize\<rparr>)"

section \<open>\<^verbatim>\<open>getFallbackTile\<close> (lines 178 to 194)\<close>

text \<open>
  The recursion ends only at \<^verbatim>\<open>zoom === 0\<close>, so below zero it does not return unless the
  cache answers on the way: the function is partial, \<open>None\<close> standing for a call that does
  not return. A returning call gives the \<^verbatim>\<open>getImage\<close> calls it made, in order, and the
  fallback tile or \<open>None\<close> for \<^verbatim>\<open>undefined\<close>. \<open>cacheOnlyOptions\<close> is the options object
  \<^verbatim>\<open>{ cacheOnly: true }\<close> of line 187.
\<close>

abbreviation cacheOnlyOptions :: ImageOptions where
  "cacheOnlyOptions \<equiv> \<lparr>priority = None, cacheOnly = Some True, preload_flag = None\<rparr>"

partial_function (option) getFallbackTile ::
  "('k \<Rightarrow> ImageOptions \<Rightarrow> 'img option) \<Rightarrow> 'k TileLayerOptions \<Rightarrow> real \<Rightarrow> real \<Rightarrow> int \<Rightarrow> real
     \<Rightarrow> ('k request list \<times> 'img FallbackTile option) option" where
  "getFallbackTile getImage options x y zoom scale =
     (if zoom = 0 then Some ([], None)
      else
        let fallbackX = x / 2;
            fallbackY = y / 2;
            src = opt_source options \<lfloor>fallbackX\<rfloor> \<lfloor>fallbackY\<rfloor> (zoom - 1);
            request = (src, cacheOnlyOptions)
        in case getImage src (snd request) of
             Some img \<Rightarrow>
               Some ([request],
                     Some \<lparr>fb_image = img, fb_scale = scale * 0.5,
                           fb_x = rem1 fallbackX, fb_y = rem1 fallbackY\<rparr>)
           | None \<Rightarrow>
               Option.bind
                 (getFallbackTile getImage options fallbackX fallbackY (zoom - 1) (scale * 0.5))
                 (\<lambda>(requests, result). Some (request # requests, result)))"

declare getFallbackTile.simps [code]

section \<open>\<^verbatim>\<open>render\<close> (lines 69 to 176) and \<^verbatim>\<open>renderDebugGrid\<close> (lines 196 to 208)\<close>

text \<open>
  A \<^verbatim>\<open>for\<close> loop over a range of tile indices runs its body on each index in turn,
  threading the state; it returns when every run of the body does.
\<close>

fun forEach :: "'a list \<Rightarrow> ('a \<Rightarrow> 's \<Rightarrow> 's option) \<Rightarrow> 's \<Rightarrow> 's option" where
  "forEach [] body s = Some s"
| "forEach (a # as) body s =
     (case body a s of None \<Rightarrow> None | Some s' \<Rightarrow> forEach as body s')"

text \<open>
  Lines 119 and 120, which lines 223 and 224 repeat. The source's \<^verbatim>\<open>size\<close> is \<open>gridSize\<close>
  here.
\<close>

definition distanceFromCenter :: "int \<Rightarrow> int \<Rightarrow> int \<times> int \<Rightarrow> NPoint \<Rightarrow> NPoint" where
  "distanceFromCenter x y tileTopLeft gridSize =
     multiply_pt
       (subtract_pt
          (divide_pt (subtract_pt (tile_pt (x, y)) (tile_pt tileTopLeft)) gridSize)
          (scalar (Num 0.5)))
       (scalar (Num 2))"

definition distance :: "NPoint \<Rightarrow> number" where
  "distance d = ndiv (nadd (nabs (fst d)) (nabs (snd d))) (Num 2)"

text \<open>The \<^verbatim>\<open>getImage\<close> call of the drawing pass for the tile \<open>(x, y)\<close> (lines 119 to 124).\<close>

definition render_request ::
  "'k TileLayerOptions \<Rightarrow> ('k, 'img) LayerRenderContext \<Rightarrow> TileGrid \<Rightarrow> NPoint \<Rightarrow> int \<Rightarrow> int
     \<Rightarrow> 'k request" where
  "render_request options ctx grid gridSize x y =
     (let d = distance (distanceFromCenter x y (tg_tileTopLeft grid) gridSize);
          src = opt_source options x y (tg_zoom grid)
      in (src, \<lparr>priority = Some (nsub (Num 2) d),
                cacheOnly = Some (rc_reason ctx = ''ease''),
                preload_flag = None\<rparr>))"

text \<open>
  The body of the inner loop of the drawing pass (lines 119 to 149). The state is what
  has been drawn on the buffer and the \<^verbatim>\<open>getImage\<close> calls made, both in order.
\<close>

definition render_tile ::
  "'k TileLayerOptions \<Rightarrow> ('k, 'img) LayerRenderContext \<Rightarrow> TileGrid \<Rightarrow> NPoint \<Rightarrow> int \<Rightarrow> int
     \<Rightarrow> 'img op list \<times> 'k request list \<Rightarrow> ('img op list \<times> 'k request list) option" where
  "render_tile options ctx grid gridSize x y s =
     (let tileSize = tg_tileSize grid;
          tileTopLeft = tg_tileTopLeft grid;
          zoom = tg_zoom grid;
          request = render_request options ctx grid gridSize x y;
          dx = of_int (x - fst tileTopLeft) * tileSize;
          dy = of_int (y - snd tileTopLeft) * tileSize
      in case rc_getImage ctx (fst request) (snd request) of
           Some tile \<Rightarrow>
             Some (fst s @ [DrawImage tile dx dy tileSize tileSize, StrokeStyle ''orange''],
                   snd s @ [request])
         | None \<Rightarrow>
             (case getFallbackTile (rc_getImage ctx) options (of_int x) (of_int y) zoom 1 of
                None \<Rightarrow> None
              | Some (requests, fallback) \<Rightarrow>
                  Some (fst s
                        @ (case fallback of
                             Some f \<Rightarrow>
                               [DrawImageSub (fb_image f)
                                  (fb_x f * tileSize) (fb_y f * tileSize)
                                  (fb_scale f * tileSize) (fb_scale f * tileSize)
                                  dx dy tileSize tileSize]
                           | None \<Rightarrow> [ClearRect dx dy tileSize tileSize])
                        @ (if vs_debug (rc_state ctx)
                           then [FillStyle (if fallback \<noteq> None then ''#0000ff33'' else ''#220000''),
                                 FillRect dx dy tileSize tileSize]
                           else []),
                        snd s @ request # requests)))"

definition renderDebugGrid :: "int \<Rightarrow> int \<Rightarrow> int \<Rightarrow> real \<Rightarrow> real \<Rightarrow> 'img op list" where
  "renderDebugGrid x y zoom width height =
     (let lineWidth = 4
      in [LineWidth lineWidth,
          TextAlign ''center'',
          TextBaseline ''top'',
          Font ''bold 16px monospace'',
          StrokeStyle (if (x + y) mod 2 = 0 then ''#f4433633'' else ''#2196f333''),
          FillStyle (if (x + y) mod 2 = 0 then ''#f44336'' else ''#2196f3''),
          StrokeRect (of_int x * width + lineWidth / 2) (of_int y * height + lineWidth / 2)
            (width - lineWidth) (height - lineWidth),
          FillText (x, y, zoom) (of_int x * width + width / 2) (of_int y * height + height / 2)])"

text \<open>
  The required size of the buffer, in pixels: the number of tiles of the grid on an axis
  times the tile size (lines 86 and 87, which lines 234 and 235 repeat).
\<close>

definition bufferWidth_of :: "TileGrid \<Rightarrow> real" where
  "bufferWidth_of grid =
     of_int (fst (tg_tileBottomRight grid) - fst (tg_tileTopLeft grid) + 1) * tg_tileSize grid"

definition bufferHeight_of :: "TileGrid \<Rightarrow> real" where
  "bufferHeight_of grid =
     of_int (snd (tg_tileBottomRight grid) - snd (tg_tileTopLeft grid) + 1) * tg_tileSize grid"

text \<open>
  What one call of \<^verbatim>\<open>render\<close> leaves: the frame buffer with its dimensions, the calls made
  on the buffer's context and on the destination context, the \<^verbatim>\<open>getImage\<close> calls, and the
  marks put on the performance timeline (the measure \<^verbatim>\<open>tile-layer-render\<close> last). A call
  that \<^verbatim>\<open>getTiles\<close> ends with its error leaves nothing; a call in which a fallback lookup
  does not return is \<open>None\<close>.
\<close>

record ('k, 'img) RenderResult =
  rr_frameBuffer :: Canvas
  rr_bufferOps :: "'img op list"
  rr_contextOps :: "'img op list"
  rr_requests :: "'k request list"
  rr_marks :: "string list"

text \<open>
  The parts of \<^verbatim>\<open>render\<close>, in the order of the source: the test of line 91; the buffer as
  lines 91 to 96 leave it; the fill of lines 105 and 106 and the two loops of lines 117 to
  151 on that buffer; the calls on the destination context of lines 154 to 172.
\<close>

definition render_resizes :: "Canvas \<Rightarrow> TileGrid \<Rightarrow> bool" where
  "render_resizes buffer grid =
     (let bufferWidth = bufferWidth_of grid;
          bufferHeight = bufferHeight_of grid
      in cv_width buffer < bufferWidth \<or> cv_height buffer < bufferHeight
         \<or> cv_width buffer > bufferWidth * 4 \<or> cv_height buffer > bufferHeight * 4)"

definition render_buffer :: "Canvas \<Rightarrow> TileGrid \<Rightarrow> Canvas" where
  "render_buffer buffer grid =
     (if render_resizes buffer grid
      then buffer\<lparr>cv_width := bufferWidth_of grid * 2, cv_height := bufferHeight_of grid * 2\<rparr>
      else buffer)"

definition render_tiles ::
  "'k TileLayerOptions \<Rightarrow> ('k, 'img) LayerRenderContext \<Rightarrow> TileGrid \<Rightarrow> Canvas
     \<Rightarrow> ('img op list \<times> 'k request list) option" where
  "render_tiles options ctx grid buffer =
     (let tileTopLeft = tg_tileTopLeft grid;
          tileBottomRight = tg_tileBottomRight grid;
          fill = [FillStyle (case rc_backgroundColor ctx of None \<Rightarrow> ''#000'' | Some c \<Rightarrow> c),
                  FillRect 0 0 (cv_width buffer) (cv_height buffer)];
          gridSize = subtract_pt (tile_pt tileBottomRight) (tile_pt tileTopLeft)
      in forEach [fst tileTopLeft..fst tileBottomRight]
           (\<lambda>x. forEach [snd tileTopLeft..snd tileBottomRight]
                   (render_tile options ctx grid gridSize x))
           (fill, []))"

definition render_blit :: "('k, 'img) LayerRenderContext \<Rightarrow> TileGrid \<Rightarrow> 'img op list" where
  "render_blit ctx grid =
     (let tileTopLeft = tg_tileTopLeft grid;
          tileBottomRight = tg_tileBottomRight grid;
          zoom = tg_zoom grid;
          renderedTileSize = tg_renderedTileSize grid
      in DrawBuffer 0 0 (bufferWidth_of grid) (bufferHeight_of grid)
           (of_int (fst tileTopLeft) * renderedTileSize)
           (of_int (snd tileTopLeft) * renderedTileSize)
           (of_int (fst tileBottomRight - fst tileTopLeft + 1) * renderedTileSize)
           (of_int (snd tileBottomRight - snd tileTopLeft + 1) * renderedTileSize)
         # (if vs_debug (rc_state ctx)
            then Save
                 # concat (map (\<lambda>x. concat (map (\<lambda>y.
                     renderDebugGrid x y zoom renderedTileSize renderedTileSize)
                     [snd tileTopLeft..snd tileBottomRight]))
                     [fst tileTopLeft..fst tileBottomRight])
                 @ [Restore]
            else []))"

definition render ::
  "'k TileLayerOptions \<Rightarrow> Canvas \<Rightarrow> ('k, 'img) LayerRenderContext
     \<Rightarrow> (error + ('k, 'img) RenderResult) option" where
  "render options frameBuffer ctx =
     (case getTiles options (rc_state ctx) (rc_project ctx) of
        Inl e \<Rightarrow> Some (Inl e)
      | Inr grid \<Rightarrow>
          (let buffer = render_buffer frameBuffer grid
           in (case render_tiles options ctx grid buffer of
                 None \<Rightarrow> None
               | Some drawn \<Rightarrow>
                   Some (Inr
                     \<lparr>rr_frameBuffer = buffer,
                      rr_bufferOps = fst drawn,
                      rr_contextOps = render_blit ctx grid,
                      rr_requests = snd drawn,
                      rr_marks =
                        ''tile-layer-render-start''
                        # (if render_resizes frameBuffer grid
                           then [''tile-layer-buffer-size-changed''] else [])
                        @ [''tile-layer-render-end'', ''tile-layer-render'']\<rparr>))))"

section \<open>\<^verbatim>\<open>preload\<close> (lines 210 to 243)\<close>

text \<open>The \<^verbatim>\<open>getImage\<close> call of the loop body (lines 223 to 227); its result is not used.\<close>

definition preload_request ::
  "'k TileLayerOptions \<Rightarrow> TileGrid \<Rightarrow> NPoint \<Rightarrow> int \<Rightarrow> int \<Rightarrow> 'k request" where
  "preload_request options grid gridSize x y =
     (let d = distance (distanceFromCenter x y (tg_tileTopLeft grid) gridSize);
          src = opt_source options x y (tg_zoom grid)
      in (src, \<lparr>priority = Some (nsub (Num 3) d), cacheOnly = None, preload_flag = Some True\<rparr>))"

record 'k PreloadResult =
  pr_frameBuffer :: Canvas
  pr_requests :: "'k request list"
  pr_marks :: "string list"

definition preload ::
  "'k TileLayerOptions \<Rightarrow> Canvas \<Rightarrow> ('k, 'img) LayerPreloadContext \<Rightarrow> error + 'k PreloadResult" where
  "preload options frameBuffer ctx =
     (case getTiles options (pc_state ctx) (pc_project ctx) of
        Inl e \<Rightarrow> Inl e
      | Inr grid \<Rightarrow>
          let tileTopLeft = tg_tileTopLeft grid;
              tileBottomRight = tg_tileBottomRight grid;
              tileSize = tg_tileSize grid;
              gridSize = subtract_pt (tile_pt tileBottomRight) (add_pt (tile_pt tileTopLeft) (scalar (Num 1)));
              xs = [fst tileTopLeft..fst tileBottomRight];
              ys = [snd tileTopLeft..snd tileBottomRight];
              bufferWidth = bufferWidth_of grid;
              bufferHeight = bufferHeight_of grid;
              resize = (cv_width frameBuffer < bufferWidth * 2
                        \<or> cv_height frameBuffer < bufferHeight * 2)
          in Inr \<lparr>pr_frameBuffer =
                    (if resize
                     then frameBuffer\<lparr>cv_width := bufferWidth * 2, cv_height := bufferHeight * 2\<rparr>
                     else frameBuffer),
                  pr_requests =
                    concat (map (\<lambda>x. map (\<lambda>y. preload_request options grid gridSize x y) ys) xs),
                  pr_marks = (if resize then [''tile-layer-buffer-size-changed''] else [])\<rparr>)"

section \<open>Example inputs\<close>

text \<open>
  A layer whose tile source names a tile by its coordinates, with the default tile size of
  256 and bounds of three tiles by three; three image caches, whose images are the keys
  themselves.
\<close>

definition xyz_options :: "(int \<times> int \<times> int) TileLayerOptions" where
  "xyz_options =
     \<lparr>opt_source = (\<lambda>x y z. (x, y, z)), opt_tileSize = None, opt_minZoom = None,
      opt_maxZoom = None, opt_bounds = Some ((0, 0), (768, 768))\<rparr>"

definition cache_full :: "int \<times> int \<times> int \<Rightarrow> ImageOptions \<Rightarrow> (int \<times> int \<times> int) option" where
  "cache_full k opts = Some k"

definition cache_root_only ::
  "int \<times> int \<times> int \<Rightarrow> ImageOptions \<Rightarrow> (int \<times> int \<times> int) option" where
  "cache_root_only k opts = (if k = (0, 0, 0) then Some k else None)"

definition cache_empty :: "int \<times> int \<times> int \<Rightarrow> ImageOptions \<Rightarrow> (int \<times> int \<times> int) option" where
  "cache_empty k opts = None"

text \<open>
  A square viewport of side \<open>w\<close> centred on the pixel \<open>(c, c)\<close> at zoom \<open>z\<close>, and a render
  context on it with the identity as projection.
\<close>

definition view_at :: "real \<Rightarrow> real \<Rightarrow> real \<Rightarrow> ViewState" where
  "view_at z c w =
     \<lparr>vs_zoom = z, vs_center = (c, c), vs_width = w, vs_height = w, vs_debug = False\<rparr>"

definition render_ctx ::
  "ViewState \<Rightarrow> (int \<times> int \<times> int \<Rightarrow> ImageOptions \<Rightarrow> (int \<times> int \<times> int) option)
     \<Rightarrow> (int \<times> int \<times> int, int \<times> int \<times> int) LayerRenderContext" where
  "render_ctx st cache =
     \<lparr>rc_state = st, rc_project = (\<lambda>p. p), rc_getImage = cache, rc_reason = ''move'',
      rc_backgroundColor = None\<rparr>"

definition preload_ctx ::
  "ViewState \<Rightarrow> (int \<times> int \<times> int \<Rightarrow> ImageOptions \<Rightarrow> (int \<times> int \<times> int) option)
     \<Rightarrow> (int \<times> int \<times> int, int \<times> int \<times> int) LayerPreloadContext" where
  "preload_ctx st cache = \<lparr>pc_state = st, pc_project = (\<lambda>p. p), pc_getImage = cache\<rparr>"

text \<open>
  The grid of a viewport outside the bounds by more than a tile (centre at pixel 2000 on
  both axes, bounds up to pixel 768, zoom 1): it runs from tile 7 down to tile 2 on both
  axes and has no cell.
\<close>

definition outside_grid :: TileGrid where
  "outside_grid =
     \<lparr>tg_tileSize = 256, tg_tileTopLeft = (7, 7), tg_tileBottomRight = (2, 2), tg_zoom = 1,
      tg_renderedTileSize = 256\<rparr>"

text \<open>
  A layer whose bounds begin at the pixel \<open>- 1000\<close> on both axes, and a cache that holds
  the tiles of the zoom levels below 2 only.
\<close>

definition west_options :: "(int \<times> int \<times> int) TileLayerOptions" where
  "west_options =
     \<lparr>opt_source = (\<lambda>x y z. (x, y, z)), opt_tileSize = None, opt_minZoom = None,
      opt_maxZoom = None, opt_bounds = Some ((- 1000, - 1000), (768, 768))\<rparr>"

definition cache_below_two ::
  "int \<times> int \<times> int \<Rightarrow> ImageOptions \<Rightarrow> (int \<times> int \<times> int) option" where
  "cache_below_two k opts = (if snd (snd k) < 2 then Some k else None)"

section \<open>The fallback resolver\<close>

subsection \<open>Arithmetic of the halved coordinates\<close>

lemma rem1_nonneg: "0 \<le> a \<Longrightarrow> rem1 a = frac a"
  by (simp add: rem1_def frac_def)

lemma floor_pow2: "\<lfloor>(of_int i :: real) / 2 ^ k\<rfloor> = i div 2 ^ k"
  using floor_divide_of_int_eq [of i "2 ^ k", where ?'a = real] by simp

lemma frac_pow2: "frac ((of_int i :: real) / 2 ^ k) = of_int (i mod 2 ^ k) / 2 ^ k"
proof -
  have "i = i div 2 ^ k * 2 ^ k + i mod 2 ^ k"
    by (rule div_mult_mod_eq [symmetric])
  then have "(of_int i :: real) = of_int (i div 2 ^ k * 2 ^ k + i mod 2 ^ k)"
    by (rule arg_cong)
  then have "(of_int i :: real) = of_int (i div 2 ^ k) * 2 ^ k + of_int (i mod 2 ^ k)"
    by simp
  then have "(of_int i :: real) / 2 ^ k = of_int (i div 2 ^ k) + of_int (i mod 2 ^ k) / 2 ^ k"
    by (simp add: field_simps)
  then show ?thesis
    by (simp add: frac_def floor_pow2)
qed

subsection \<open>One step, and induction over the calls that return\<close>

lemma gft_step:
  "zoom \<noteq> 0 \<Longrightarrow>
   getFallbackTile getImage options x y zoom scale =
     (case getImage (opt_source options \<lfloor>x / 2\<rfloor> \<lfloor>y / 2\<rfloor> (zoom - 1)) cacheOnlyOptions of
        None \<Rightarrow>
          Option.bind (getFallbackTile getImage options (x / 2) (y / 2) (zoom - 1) (scale * 0.5))
            (\<lambda>(requests, result).
               Some ((opt_source options \<lfloor>x / 2\<rfloor> \<lfloor>y / 2\<rfloor> (zoom - 1), cacheOnlyOptions) # requests,
                     result))
      | Some img \<Rightarrow>
          Some ([(opt_source options \<lfloor>x / 2\<rfloor> \<lfloor>y / 2\<rfloor> (zoom - 1), cacheOnlyOptions)],
                Some \<lparr>fb_image = img, fb_scale = scale * 0.5,
                      fb_x = rem1 (x / 2), fb_y = rem1 (y / 2)\<rparr>))"
  by (subst getFallbackTile.simps) (simp add: Let_def)

lemmas gft_induct =
  getFallbackTile.raw_induct
    [where xa = "(((((getImage, options), x), y), zoom), scale)" for getImage options x y zoom scale,
     simplified, rotated 1, consumes 1]

lemma gft_cacheOnly:
  assumes "getFallbackTile getImage options x y zoom scale = Some res"
  shows "\<forall>q\<in>set (fst res). cacheOnly (snd q) = Some True"
  using assms
proof (induction rule: gft_induct)
  case (1 f getImage options x y zoom scale res)
  then show ?case
    by (fastforce simp: Let_def split: if_splits option.splits prod.splits Option.bind_splits)
qed

lemma gft_none_zoom:
  assumes "getFallbackTile getImage options x y zoom scale = Some res"
  shows "snd res = None \<longrightarrow> 0 \<le> zoom"
  using assms
proof (induction rule: gft_induct)
  case (1 f getImage options x y zoom scale res)
  then show ?case
    by (fastforce simp: Let_def split: if_splits option.splits prod.splits Option.bind_splits)
qed

text \<open>From a zoom level that is not negative the recursion returns.\<close>

lemma gft_total:
  "\<exists>res. getFallbackTile getImage options x y (int n) scale = Some res"
proof (induction n arbitrary: x y scale)
  case 0
  show ?case by (simp add: getFallbackTile.simps)
next
  case (Suc n)
  have nz: "int (Suc n) \<noteq> 0" by simp
  have hz: "int (Suc n) - 1 = int n" by simp
  from Suc [of "x / 2" "y / 2" "scale * 0.5"] obtain res where
    rec: "getFallbackTile getImage options (x / 2) (y / 2) (int n) (scale * 0.5) = Some res"
    by blast
  show ?case
    unfolding gft_step [OF nz] hz rec
    by (simp split: option.splits prod.splits)
qed

lemma gft_returns:
  assumes "0 \<le> zoom"
  shows "\<exists>res. getFallbackTile getImage options x y zoom scale = Some res"
  using gft_total [of getImage options x y "nat zoom" scale] assms by simp

text \<open>
  A tile found after \<open>length reqs\<close> lookups, from the state the recursion is in after \<open>j\<close>
  levels: coordinates \<open>xi / 2 ^ j\<close> and \<open>yi / 2 ^ j\<close>, scale \<open>1 / 2 ^ j\<close>.
\<close>

lemma gft_levels:
  assumes "0 \<le> xi" "0 \<le> yi"
  shows "getFallbackTile getImage options (of_int xi / 2 ^ j) (of_int yi / 2 ^ j) (int n) (1 / 2 ^ j)
           = Some (reqs, Some r) \<Longrightarrow>
         1 \<le> length reqs \<and> length reqs \<le> n
         \<and> getImage (opt_source options (xi div 2 ^ (j + length reqs)) (yi div 2 ^ (j + length reqs))
              (int n - int (length reqs))) cacheOnlyOptions = Some (fb_image r)
         \<and> fb_scale r = 1 / 2 ^ (j + length reqs)
         \<and> fb_x r = of_int (xi mod 2 ^ (j + length reqs)) / 2 ^ (j + length reqs)
         \<and> fb_y r = of_int (yi mod 2 ^ (j + length reqs)) / 2 ^ (j + length reqs)"
proof (induction n arbitrary: j reqs)
  case 0
  then show ?case by (simp add: getFallbackTile.simps)
next
  case (Suc n)
  let ?src = "opt_source options (xi div 2 ^ Suc j) (yi div 2 ^ Suc j) (int n)"
  have nz: "int (Suc n) \<noteq> 0" by simp
  have hz: "int (Suc n) - 1 = int n" by simp
  have hx: "(of_int xi :: real) / 2 ^ j / 2 = of_int xi / 2 ^ Suc j" by simp
  have hy: "(of_int yi :: real) / 2 ^ j / 2 = of_int yi / 2 ^ Suc j" by simp
  have hs: "1 / 2 ^ j * (5 / 10) = (1 :: real) / 2 ^ Suc j" by simp
  have rx: "rem1 ((of_int xi :: real) / 2 ^ Suc j) = of_int (xi mod 2 ^ Suc j) / 2 ^ Suc j"
    using assms(1) by (simp only: frac_pow2 [symmetric] rem1_nonneg) (simp add: rem1_nonneg)
  have ry: "rem1 ((of_int yi :: real) / 2 ^ Suc j) = of_int (yi mod 2 ^ Suc j) / 2 ^ Suc j"
    using assms(2) by (simp only: frac_pow2 [symmetric] rem1_nonneg) (simp add: rem1_nonneg)
  have unfold:
    "getFallbackTile getImage options (of_int xi / 2 ^ j) (of_int yi / 2 ^ j) (int (Suc n)) (1 / 2 ^ j)
     = (case getImage ?src cacheOnlyOptions of
          None \<Rightarrow>
            Option.bind
              (getFallbackTile getImage options (of_int xi / 2 ^ Suc j) (of_int yi / 2 ^ Suc j)
                 (int n) (1 / 2 ^ Suc j))
              (\<lambda>(requests, result). Some ((?src, cacheOnlyOptions) # requests, result))
        | Some img \<Rightarrow>
            Some ([(?src, cacheOnlyOptions)],
                  Some \<lparr>fb_image = img, fb_scale = 1 / 2 ^ Suc j,
                        fb_x = of_int (xi mod 2 ^ Suc j) / 2 ^ Suc j,
                        fb_y = of_int (yi mod 2 ^ Suc j) / 2 ^ Suc j\<rparr>))"
    by (simp only: gft_step [OF nz] hz hx hy hs rx ry floor_pow2)
  show ?case
  proof (cases "getImage ?src cacheOnlyOptions")
    case (Some img)
    with Suc.prems unfold show ?thesis by auto
  next
    case None
    with Suc.prems unfold obtain reqs' where
      rec: "getFallbackTile getImage options (of_int xi / 2 ^ Suc j) (of_int yi / 2 ^ Suc j)
              (int n) (1 / 2 ^ Suc j) = Some (reqs', Some r)"
      and reqs: "reqs = (?src, cacheOnlyOptions) # reqs'"
      by (auto split: Option.bind_splits)
    from Suc.IH [OF rec] reqs show ?thesis by simp
  qed
qed

subsection \<open>Claims about the resolver\<close>

text \<open>
  Claim C8. At zoom 0 no fallback is possible: for every \<open>x\<close>, every \<open>y\<close>, every lookup
  function (and every scale) the call returns, it returns \<^verbatim>\<open>undefined\<close>, and it has looked
  nothing up.
\<close>

theorem getFallbackTile_zoom_zero:
  "getFallbackTile getImage options x y 0 scale = Some ([], None)"
  by (simp add: getFallbackTile.simps)

text \<open>
  Where \<open>x\<close> and \<open>y\<close> are not negative and the cache has the parent tile, the resolver
  returns it after one lookup, with scale \<open>0.5\<close> and the offsets \<open>((x mod 2) / 2, (y mod 2) / 2)\<close>.
\<close>

lemma getFallbackTile_parent_nonneg:
  assumes "0 \<le> xi" and "0 \<le> yi" and "0 < zoom"
    and "getImage (opt_source options \<lfloor>(of_int xi :: real) / 2\<rfloor> \<lfloor>(of_int yi :: real) / 2\<rfloor> (zoom - 1))
           cacheOnlyOptions = Some img"
  shows "getFallbackTile getImage options (of_int xi) (of_int yi) zoom 1
         = Some ([(opt_source options \<lfloor>(of_int xi :: real) / 2\<rfloor> \<lfloor>(of_int yi :: real) / 2\<rfloor> (zoom - 1),
                   cacheOnlyOptions)],
                 Some \<lparr>fb_image = img, fb_scale = 0.5,
                       fb_x = of_int (xi mod 2) / 2, fb_y = of_int (yi mod 2) / 2\<rparr>)"
proof -
  have x: "rem1 (of_int xi / 2) = of_int (xi mod 2) / 2"
    using assms(1) frac_pow2 [of xi 1] by (simp add: rem1_nonneg)
  have y: "rem1 (of_int yi / 2) = of_int (yi mod 2) / 2"
    using assms(2) frac_pow2 [of yi 1] by (simp add: rem1_nonneg)
  from assms(3) have "zoom \<noteq> 0" by simp
  from gft_step [OF this, of getImage options "of_int xi" "of_int yi" 1] assms(4) show ?thesis
    by (simp add: x y)
qed

text \<open>
  Claim C6. The resolver never asks for more than the cache: every lookup that a call has
  made when it returns, at whatever depth of the recursion, carries \<^verbatim>\<open>cacheOnly: true\<close>, for
  every \<open>x\<close>, \<open>y\<close>, \<open>zoom\<close>, scale and lookup function; and from every zoom level that is not
  negative the call does return. (Below zero the recursion passes no zoom level 0; a call
  that does not return is not described by its result.)
\<close>

theorem getFallbackTile_cache_only:
  "(0 \<le> zoom \<longrightarrow> (\<exists>res. getFallbackTile getImage options x y zoom scale = Some res))
   \<and> (\<forall>res. getFallbackTile getImage options x y zoom scale = Some res
          \<longrightarrow> (\<forall>q\<in>set (fst res). cacheOnly (snd q) = Some True))"
  using gft_returns [of zoom getImage options x y scale] gft_cacheOnly [of getImage options x y zoom scale]
  by blast

theorem getFallbackTile_cache_only_witness:
  "(0 :: int) \<le> 2
   \<and> getFallbackTile cache_root_only xyz_options 3 1 2 1
       = Some ([((1, 0, 1), cacheOnlyOptions), ((0, 0, 0), cacheOnlyOptions)],
               Some \<lparr>fb_image = (0, 0, 0), fb_scale = 1 / 4, fb_x = 3 / 4, fb_y = 1 / 4\<rparr>)
   \<and> list_all (\<lambda>q. cacheOnly (snd q) = Some True)
        [((1 :: int, 0 :: int, 1 :: int), cacheOnlyOptions), ((0, 0, 0), cacheOnlyOptions)]"
proof -
  have run: "getFallbackTile cache_root_only xyz_options 3 1 2 1
      = Some ([((1, 0, 1), cacheOnlyOptions), ((0, 0, 0), cacheOnlyOptions)],
              Some \<lparr>fb_image = (0, 0, 0), fb_scale = 1 / 4, fb_x = 3 / 4, fb_y = 1 / 4\<rparr>)"
    by (simp add: getFallbackTile.simps cache_root_only_def xyz_options_def rem1_def Let_def)
  from getFallbackTile_cache_only [of 2 cache_root_only xyz_options 3 1 1] run
  have "\<forall>q\<in>set [((1 :: int, 0 :: int, 1 :: int), cacheOnlyOptions), ((0, 0, 0), cacheOnlyOptions)].
          cacheOnly (snd q) = Some True"
    by (metis fst_conv)
  then have "list_all (\<lambda>q. cacheOnly (snd q) = Some True)
      [((1 :: int, 0 :: int, 1 :: int), cacheOnlyOptions), ((0, 0, 0), cacheOnlyOptions)]"
    unfolding list_all_iff .
  with run show ?thesis by simp
qed

text \<open>
  Claim C10. For all integers \<open>x\<close> and \<open>y\<close> that are not negative and every \<open>zoom > 0\<close>, when
  the resolver, called with the scale 1, returns a tile, it found it \<open>k \<ge> 1\<close> levels above
  the request, \<open>k\<close> being the number of its lookups: the image is the cache's entry for
  \<open>(x div 2 ^ k, y div 2 ^ k)\<close> at \<open>zoom - k\<close>, the scale is \<open>2 ^ (- k)\<close>, each offset is a
  multiple of \<open>2 ^ (- k)\<close> in \<open>[0, 1)\<close>, and offset plus scale is at most 1 on each axis. So
  the square that \<^verbatim>\<open>render\<close> draws from the ancestor image, at offset times tile size with
  side scale times tile size, lies within the tile, for every tile size that is not
  negative.
\<close>

theorem getFallbackTile_within_ancestor:
  assumes "0 \<le> xi" and "0 \<le> yi" and "0 < zoom"
    and "getFallbackTile getImage options (of_int xi) (of_int yi) zoom 1 = Some (reqs, Some r)"
  shows "1 \<le> length reqs \<and> int (length reqs) \<le> zoom
         \<and> getImage (opt_source options (xi div 2 ^ length reqs) (yi div 2 ^ length reqs)
              (zoom - int (length reqs))) cacheOnlyOptions = Some (fb_image r)
         \<and> fb_scale r = 1 / 2 ^ length reqs
         \<and> fb_x r = of_int (xi mod 2 ^ length reqs) / 2 ^ length reqs
         \<and> fb_y r = of_int (yi mod 2 ^ length reqs) / 2 ^ length reqs
         \<and> 0 \<le> fb_x r \<and> fb_x r < 1 \<and> fb_x r + fb_scale r \<le> 1
         \<and> 0 \<le> fb_y r \<and> fb_y r < 1 \<and> fb_y r + fb_scale r \<le> 1
         \<and> (0 \<le> tileSize \<longrightarrow>
              0 \<le> fb_x r * tileSize \<and> fb_x r * tileSize + fb_scale r * tileSize \<le> tileSize
              \<and> 0 \<le> fb_y r * tileSize \<and> fb_y r * tileSize + fb_scale r * tileSize \<le> tileSize)"
proof -
  let ?k = "length reqs"
  from assms(3) have zoom: "int (nat zoom) = zoom" by simp
  from assms(4) have "getFallbackTile getImage options (of_int xi / 2 ^ 0) (of_int yi / 2 ^ 0)
      (int (nat zoom)) (1 / 2 ^ 0) = Some (reqs, Some r)"
    unfolding zoom by simp
  from gft_levels [OF assms(1,2) this]
  have len: "1 \<le> ?k" "?k \<le> nat zoom"
    and img: "getImage (opt_source options (xi div 2 ^ ?k) (yi div 2 ^ ?k) (zoom - int ?k))
                cacheOnlyOptions = Some (fb_image r)"
    and sc: "fb_scale r = 1 / 2 ^ ?k"
    and x: "fb_x r = of_int (xi mod 2 ^ ?k) / 2 ^ ?k"
    and y: "fb_y r = of_int (yi mod 2 ^ ?k) / 2 ^ ?k"
    using assms(3) by (simp_all add: zoom)
  have bounds: "0 \<le> (of_int (i mod 2 ^ ?k) :: real) / 2 ^ ?k
      \<and> (of_int (i mod 2 ^ ?k) :: real) / 2 ^ ?k < 1
      \<and> (of_int (i mod 2 ^ ?k) :: real) / 2 ^ ?k + 1 / 2 ^ ?k \<le> 1" for i :: int
  proof -
    have m: "0 \<le> i mod 2 ^ ?k" "i mod 2 ^ ?k + 1 \<le> 2 ^ ?k"
      by simp_all (smt (verit) pos_mod_bound zero_less_power)
    then have "(0 :: real) \<le> of_int (i mod 2 ^ ?k)" "(of_int (i mod 2 ^ ?k + 1) :: real) \<le> of_int (2 ^ ?k)"
      by (simp, simp only: of_int_le_iff)
    then show ?thesis
      by (simp add: field_simps)
  qed
  have inside: "0 \<le> a * tileSize \<and> a * tileSize + s * tileSize \<le> tileSize"
    if "0 \<le> a" "a + s \<le> 1" "0 \<le> tileSize" for a s :: real
  proof -
    have "(a + s) * tileSize \<le> 1 * tileSize"
      using that by (intro mult_right_mono) simp_all
    with that show ?thesis by (simp add: algebra_simps)
  qed
  from bounds [of xi] bounds [of yi] have b:
    "0 \<le> fb_x r" "fb_x r < 1" "fb_x r + fb_scale r \<le> 1"
    "0 \<le> fb_y r" "fb_y r < 1" "fb_y r + fb_scale r \<le> 1"
    by (simp_all add: x y sc)
  from len(2) assms(3) have "int ?k \<le> zoom" by linarith
  with inside [OF b(1) b(3)] inside [OF b(4) b(6)] len(1) img sc x y b show ?thesis
    by blast
qed

theorem getFallbackTile_within_ancestor_witness:
  "(0 :: int) \<le> 3 \<and> (0 :: int) \<le> 1 \<and> (0 :: int) < 2
   \<and> getFallbackTile cache_root_only xyz_options (of_int 3) (of_int 1) 2 1
       = Some ([((1, 0, 1), cacheOnlyOptions), ((0, 0, 0), cacheOnlyOptions)],
               Some \<lparr>fb_image = (0, 0, 0), fb_scale = 1 / 4, fb_x = 3 / 4, fb_y = 1 / 4\<rparr>)
   \<and> cache_root_only (opt_source xyz_options (3 div 2 ^ 2) (1 div 2 ^ 2) (2 - 2)) cacheOnlyOptions
       = Some (0, 0, 0)
   \<and> (3 / 4 :: real) + 1 / 4 \<le> 1
   \<and> (0 :: real) \<le> 256 \<and> 3 / 4 * 256 + 1 / 4 * 256 \<le> (256 :: real)"
proof -
  have run: "getFallbackTile cache_root_only xyz_options (of_int 3) (of_int 1) 2 1
      = Some ([((1, 0, 1), cacheOnlyOptions), ((0, 0, 0), cacheOnlyOptions)],
              Some \<lparr>fb_image = (0, 0, 0), fb_scale = 1 / 4, fb_x = 3 / 4, fb_y = 1 / 4\<rparr>)"
    by (simp add: getFallbackTile.simps cache_root_only_def xyz_options_def rem1_def Let_def)
  from getFallbackTile_within_ancestor [of 3 1 2 cache_root_only xyz_options _ _ 256, OF _ _ _ run] run
  show ?thesis
    by simp
qed

section \<open>The tile grid\<close>

lemma rem1_eq_0_iff: "rem1 z = 0 \<longleftrightarrow> z \<in> \<int>"
proof
  assume "rem1 z = 0"
  then have "z = of_int (if 0 \<le> z then \<lfloor>z\<rfloor> else \<lceil>z\<rceil>)"
    by (simp add: rem1_def)
  then show "z \<in> \<int>"
    by (metis Ints_of_int)
next
  assume "z \<in> \<int>"
  then show "rem1 z = 0"
    by (auto simp: rem1_def elim!: Ints_cases)
qed

lemma renderedTileSize_of_nonneg:
  assumes "0 \<le> z"
  shows "renderedTileSize_of z t = (if z \<in> \<int> then t else 0.5 * 2 powr frac z * t)"
  using assms by (simp add: renderedTileSize_of_def rem1_eq_0_iff rem1_nonneg)

lemma renderedTileSize_of_ge_half:
  assumes "0 \<le> z" and "0 \<le> t"
  shows "t / 2 \<le> renderedTileSize_of z t"
proof (cases "z \<in> \<int>")
  case True
  with assms show ?thesis by (simp add: renderedTileSize_of_nonneg)
next
  case False
  have "0 \<le> frac z" by simp
  then have "2 powr 0 \<le> (2 :: real) powr frac z"
    by (intro powr_mono) simp_all
  then have "1 * t \<le> 2 powr frac z * t"
    using assms(2) by (intro mult_right_mono) simp_all
  with False assms show ?thesis by (simp add: renderedTileSize_of_nonneg)
qed

lemma rem1_minus_half: "rem1 (- (1 / 2)) = - (1 / 2)"
proof -
  have "\<lceil>- (1 / 2) :: real\<rceil> = 0" by (simp add: ceiling_eq_iff)
  then show ?thesis by (simp add: rem1_def)
qed

lemma renderedTileSize_of_minus_half: "renderedTileSize_of (- (1 / 2)) 256 < 256 / 2"
proof -
  have "(2 :: real) powr - (1 / 2) < 2 powr 0"
    by (intro powr_less_mono) simp_all
  then show ?thesis
    by (simp add: renderedTileSize_of_def rem1_minus_half)
qed

lemma rem1_numeral [simp]: "rem1 (numeral n) = 0" "rem1 0 = 0" "rem1 1 = 0"
  by (simp_all add: rem1_def)

lemmas example_defs =
  xyz_options_def view_at_def render_ctx_def preload_ctx_def cache_full_def cache_empty_def
  cache_root_only_def

lemma example_simps:
  "opt_source xyz_options x y z = (x, y, z)"
  "tileSize_of xyz_options = 256"
  "rc_state (render_ctx st cache) = st"
  "rc_project (render_ctx st cache) = (\<lambda>p. p)"
  "rc_getImage (render_ctx st cache) = cache"
  "rc_reason (render_ctx st cache) = ''move''"
  "rc_backgroundColor (render_ctx st cache) = None"
  "pc_state (preload_ctx st cache) = st"
  "pc_project (preload_ctx st cache) = (\<lambda>p. p)"
  "vs_zoom (view_at zoom c w) = zoom"
  "vs_debug (view_at zoom c w) = False"
  "cache_full k opts = Some k"
  "cache_empty k opts = None"
  by (simp_all add: example_defs tileSize_of_def)

text \<open>
  Claim C3, as stated, at the zoom \<open>- 1/2\<close> with the default tile size: \<^verbatim>\<open>state.zoom % 1\<close> is
  \<open>- 1/2\<close>, the rendered tile size \<open>0.5 * 2 ^ (- 1/2) * 256\<close> is below 128, and \<^verbatim>\<open>getTiles\<close>
  throws where the claim has it return a zoom level and a rendered tile size.
\<close>

theorem getTiles_negative_zoom_throws:
  "getTiles xyz_options (view_at (- (1 / 2)) 384 768) (\<lambda>p. p) = Inl WrongTileSize"
  using renderedTileSize_of_minus_half
  by (simp add: getTiles_def Let_def view_at_def xyz_options_def tileSize_of_def)

text \<open>
  Claim C3, amended: for every view state whose zoom is not negative, and a positive tile
  size, \<^verbatim>\<open>getTiles\<close> returns a grid; its zoom level is \<open>\<lceil>zoom\<rceil>\<close>, its tile size is the
  configured one (256 when none is), and its rendered tile size is the tile size when the
  zoom is an integer and \<open>0.5 * 2 ^ frac zoom * tileSize\<close> otherwise, \<open>frac\<close> being the
  fractional part.
\<close>

theorem getTiles_zoom_and_renderedTileSize:
  assumes "0 \<le> vs_zoom state" and "0 < tileSize_of options"
  shows "\<exists>grid. getTiles options state project = Inr grid
           \<and> tg_zoom grid = \<lceil>vs_zoom state\<rceil>
           \<and> tg_tileSize grid = tileSize_of options
           \<and> tg_renderedTileSize grid =
               (if vs_zoom state \<in> \<int> then tileSize_of options
                else 0.5 * 2 powr frac (vs_zoom state) * tileSize_of options)"
proof -
  from assms
  have ge: "tileSize_of options / 2 \<le> renderedTileSize_of (vs_zoom state) (tileSize_of options)"
    by (intro renderedTileSize_of_ge_half) simp_all
  with assms(2) have nz: "renderedTileSize_of (vs_zoom state) (tileSize_of options) \<noteq> 0"
    by auto
  from ge nz show ?thesis
    by (simp add: getTiles_def Let_def renderedTileSize_of_nonneg [OF assms(1)])
qed

theorem getTiles_zoom_and_renderedTileSize_witness:
  "(0 :: real) \<le> vs_zoom (view_at (5 / 2) 384 768) \<and> 0 < tileSize_of xyz_options
   \<and> (\<exists>grid. getTiles xyz_options (view_at (5 / 2) 384 768) (\<lambda>p. p) = Inr grid
         \<and> tg_zoom grid = 3 \<and> tg_tileSize grid = 256
         \<and> tg_renderedTileSize grid = 0.5 * 2 powr (1 / 2) * 256)"
proof -
  have z: "(0 :: real) \<le> vs_zoom (view_at (5 / 2) 384 768)"
    and t: "0 < tileSize_of xyz_options"
    by (simp_all add: example_simps)
  have frac: "frac (5 / 2 :: real) = 1 / 2"
    by (simp add: frac_def)
  then have "frac (5 / 2 :: real) \<noteq> 0" by simp
  then have notint: "(5 / 2 :: real) \<notin> \<int>"
    unfolding frac_eq_0_iff .
  have ceil: "\<lceil>5 / 2 :: real\<rceil> = 3"
    by (simp add: ceiling_eq_iff)
  from getTiles_zoom_and_renderedTileSize [OF z t, of "\<lambda>p. p"] z t show ?thesis
    by (simp add: example_simps frac notint ceil)
qed

text \<open>
  Claim C4. When the rendered tile size that \<^verbatim>\<open>getTiles\<close> computes is strictly below half
  the tile size, \<^verbatim>\<open>getTiles\<close> throws \<open>Wrong tile size\<close>, and so does the render call of the
  frame, which then draws nothing; there is no clamping. When the rendered tile size is at
  least half the tile size, neither fails with that error.
\<close>

theorem getTiles_wrong_tile_size:
  "(renderedTileSize_of (vs_zoom (rc_state ctx)) (tileSize_of options) < tileSize_of options / 2
      \<longrightarrow> getTiles options (rc_state ctx) (rc_project ctx) = Inl WrongTileSize
          \<and> render options frameBuffer ctx = Some (Inl WrongTileSize))
   \<and> (tileSize_of options / 2 \<le> renderedTileSize_of (vs_zoom (rc_state ctx)) (tileSize_of options)
        \<longrightarrow> getTiles options (rc_state ctx) (rc_project ctx) \<noteq> Inl WrongTileSize
            \<and> render options frameBuffer ctx \<noteq> Some (Inl WrongTileSize))"
  by (auto simp: getTiles_def render_def Let_def split: sum.splits option.splits)

theorem getTiles_wrong_tile_size_witness:
  "renderedTileSize_of (- (1 / 2)) (tileSize_of xyz_options) < tileSize_of xyz_options / 2
   \<and> getTiles xyz_options (view_at (- (1 / 2)) 384 768) (\<lambda>p. p) = Inl WrongTileSize
   \<and> render xyz_options \<lparr>cv_width = 0, cv_height = 0\<rparr>
        (render_ctx (view_at (- (1 / 2)) 384 768) cache_full) = Some (Inl WrongTileSize)
   \<and> tileSize_of xyz_options / 2 \<le> renderedTileSize_of 2 (tileSize_of xyz_options)
   \<and> getTiles xyz_options (view_at 2 384 768) (\<lambda>p. p) \<noteq> Inl WrongTileSize"
proof -
  have small: "renderedTileSize_of (- (1 / 2)) (tileSize_of xyz_options) < tileSize_of xyz_options / 2"
    using renderedTileSize_of_minus_half by (simp add: example_simps)
  have large: "tileSize_of xyz_options / 2 \<le> renderedTileSize_of 2 (tileSize_of xyz_options)"
    by (simp add: example_simps renderedTileSize_of_def)
  from getTiles_wrong_tile_size
         [of "render_ctx (view_at (- (1 / 2)) 384 768) cache_full" xyz_options
             "\<lparr>cv_width = 0, cv_height = 0\<rparr>"]
       getTiles_wrong_tile_size
         [of "render_ctx (view_at 2 384 768) cache_full" xyz_options
             "\<lparr>cv_width = 0, cv_height = 0\<rparr>"]
       small large
  show ?thesis
    by (simp add: example_simps)
qed

section \<open>The render pass\<close>

subsection \<open>Loops\<close>

lemma forEach_total:
  assumes "\<And>a s. a \<in> set as \<Longrightarrow> \<exists>s'. body a s = Some s'"
  shows "\<exists>s'. forEach as body s = Some s'"
  using assms
proof (induction as arbitrary: s)
  case Nil
  show ?case by simp
next
  case (Cons a as)
  from Cons.prems [of a s] obtain s1 where "body a s = Some s1" by auto
  moreover from Cons.IH [of s1] Cons.prems obtain s' where "forEach as body s1 = Some s'"
    by auto
  ultimately show ?case by simp
qed

lemma forEach_appends:
  assumes "\<forall>a s s'. body a s = Some s' \<longrightarrow> (\<exists>ops. fst s' = fst s @ ops)"
    and "forEach as body s = Some s'"
  shows "\<exists>ops. fst s' = fst s @ ops"
  using assms(2)
proof (induction as arbitrary: s)
  case Nil
  then show ?case by simp
next
  case (Cons a as)
  from Cons.prems obtain s1 where 1: "body a s = Some s1" and 2: "forEach as body s1 = Some s'"
    by (auto split: option.splits)
  from assms(1) 1 obtain ops where "fst s1 = fst s @ ops" by blast
  with Cons.IH [OF 2] show ?case by auto
qed

lemma forEach_visits:
  assumes app: "\<forall>a s s'. body a s = Some s' \<longrightarrow> (\<exists>ops. fst s' = fst s @ ops)"
    and "a \<in> set as"
    and "forEach as body s = Some s'"
  shows "\<exists>s1 s2 pre post. body a s1 = Some s2 \<and> fst s1 = fst s @ pre \<and> fst s' = fst s2 @ post"
  using assms(2,3)
proof (induction as arbitrary: s)
  case Nil
  then show ?case by simp
next
  case (Cons b as)
  from Cons.prems(2) obtain t where 1: "body b s = Some t" and 2: "forEach as body t = Some s'"
    by (auto split: option.splits)
  show ?case
  proof (cases "a = b")
    case True
    from forEach_appends [OF app 2] obtain post where "fst s' = fst t @ post"
      by blast
    with 1 True show ?thesis
      by (rule_tac x = s in exI, rule_tac x = t in exI, rule_tac x = "[]" in exI,
          rule_tac x = post in exI) simp
  next
    case False
    with Cons.prems(1) have "a \<in> set as" by simp
    from Cons.IH [OF this 2] obtain s1 s2 pre post
      where *: "body a s1 = Some s2" "fst s1 = fst t @ pre" "fst s' = fst s2 @ post"
      by blast
    from app 1 obtain ops where "fst t = fst s @ ops" by blast
    with * show ?thesis
      by (rule_tac x = s1 in exI, rule_tac x = s2 in exI, rule_tac x = "ops @ pre" in exI,
          rule_tac x = post in exI) simp
  qed
qed

lemma render_tile_appends:
  "\<forall>y s s'. render_tile options ctx grid gridSize x y s = Some s' \<longrightarrow> (\<exists>ops. fst s' = fst s @ ops)"
  by (auto simp: render_tile_def Let_def split: option.splits prod.splits)

lemma render_column_appends:
  "\<forall>x s s'. forEach ys (render_tile options ctx grid gridSize x) s = Some s'
     \<longrightarrow> (\<exists>ops. fst s' = fst s @ ops)"
  using forEach_appends [OF render_tile_appends] by blast

lemma render_tile_total:
  assumes "0 \<le> tg_zoom grid"
  shows "\<exists>s'. render_tile options ctx grid gridSize x y s = Some s'"
proof -
  from gft_returns [OF assms] obtain res where
    "getFallbackTile (rc_getImage ctx) options (of_int x) (of_int y) (tg_zoom grid) 1 = Some res"
    by blast
  then show ?thesis
    by (cases res) (simp add: render_tile_def Let_def split: option.splits)
qed

lemma render_tile_clears:
  assumes "rc_getImage ctx (fst (render_request options ctx grid gridSize x y))
             (snd (render_request options ctx grid gridSize x y)) = None"
    and "getFallbackTile (rc_getImage ctx) options (of_int x) (of_int y) (tg_zoom grid) 1
           = Some (requests, None)"
    and "render_tile options ctx grid gridSize x y s = Some s'"
  shows "fst s' = fst s
           @ ClearRect (of_int (x - fst (tg_tileTopLeft grid)) * tg_tileSize grid)
               (of_int (y - snd (tg_tileTopLeft grid)) * tg_tileSize grid)
               (tg_tileSize grid) (tg_tileSize grid)
           # (if vs_debug (rc_state ctx)
              then [FillStyle ''#220000'',
                    FillRect (of_int (x - fst (tg_tileTopLeft grid)) * tg_tileSize grid)
                      (of_int (y - snd (tg_tileTopLeft grid)) * tg_tileSize grid)
                      (tg_tileSize grid) (tg_tileSize grid)]
              else [])"
  using assms by (auto simp: render_tile_def Let_def)

subsection \<open>The parts of a render call\<close>

lemma fst_render_request [simp]:
  "fst (render_request options ctx grid gridSize x y) = opt_source options x y (tg_zoom grid)"
  by (simp add: render_request_def Let_def)

lemma render_Inr_iff:
  assumes "getTiles options (rc_state ctx) (rc_project ctx) = Inr grid"
  shows "render options frameBuffer ctx = Some (Inr result) \<longleftrightarrow>
     (\<exists>drawn.
        render_tiles options ctx grid (render_buffer frameBuffer grid) = Some drawn
        \<and> result =
            \<lparr>rr_frameBuffer = render_buffer frameBuffer grid,
             rr_bufferOps = fst drawn,
             rr_contextOps = render_blit ctx grid,
             rr_requests = snd drawn,
             rr_marks =
               ''tile-layer-render-start''
               # (if render_resizes frameBuffer grid
                  then [''tile-layer-buffer-size-changed''] else [])
               @ [''tile-layer-render-end'', ''tile-layer-render'']\<rparr>)"
  unfolding render_def assms Let_def sum.case
  by (auto split: option.splits)

lemma render_tiles_total:
  assumes "0 \<le> tg_zoom grid"
  shows "\<exists>drawn. render_tiles options ctx grid buffer = Some drawn"
  unfolding render_tiles_def Let_def
  by (intro forEach_total render_tile_total assms)

subsection \<open>Example calls\<close>

lemma upto_examples: "[0..0::int] = [0]" "[0..2::int] = [0, 1, 2]" "[7..2::int] = []"
  by (simp_all add: upto.simps)

lemma getTiles_one_tile:
  "getTiles xyz_options (view_at 2 128 256) (\<lambda>p. p)
   = Inr \<lparr>tg_tileSize = 256, tg_tileTopLeft = (0, 0), tg_tileBottomRight = (0, 0), tg_zoom = 2,
          tg_renderedTileSize = 256\<rparr>"
  by (simp add: getTiles_def tileSize_of_def renderedTileSize_of_def Let_def example_defs)

lemma getTiles_nine_tiles:
  "getTiles xyz_options (view_at 2 384 768) (\<lambda>p. p)
   = Inr \<lparr>tg_tileSize = 256, tg_tileTopLeft = (0, 0), tg_tileBottomRight = (2, 2), tg_zoom = 2,
          tg_renderedTileSize = 256\<rparr>"
  by (simp add: getTiles_def tileSize_of_def renderedTileSize_of_def Let_def example_defs)

lemma getTiles_outside:
  "getTiles xyz_options (view_at 1 2000 256) (\<lambda>p. p) = Inr outside_grid"
  by (simp add: getTiles_def tileSize_of_def renderedTileSize_of_def Let_def example_defs
      outside_grid_def)

lemmas render_defs =
  render_def render_buffer_def render_resizes_def render_tiles_def render_blit_def
  render_tile_def render_request_def bufferWidth_of_def bufferHeight_of_def
  distance_def distanceFromCenter_def subtract_pt_def divide_pt_def multiply_pt_def add_pt_def
  scalar_def tile_pt_def nsub_def Let_def

lemma render_one_tile_full:
  "render xyz_options \<lparr>cv_width = w, cv_height = h\<rparr> (render_ctx (view_at 2 128 256) cache_full)
   = Some (Inr
       \<lparr>rr_frameBuffer =
          (if w < 256 \<or> h < 256 \<or> 1024 < w \<or> 1024 < h
           then \<lparr>cv_width = 512, cv_height = 512\<rparr> else \<lparr>cv_width = w, cv_height = h\<rparr>),
        rr_bufferOps =
          [FillStyle ''#000'',
           FillRect 0 0 (if w < 256 \<or> h < 256 \<or> 1024 < w \<or> 1024 < h then 512 else w)
             (if w < 256 \<or> h < 256 \<or> 1024 < w \<or> 1024 < h then 512 else h),
           DrawImage (0, 0, 2) 0 0 256 256, StrokeStyle ''orange''],
        rr_contextOps = [DrawBuffer 0 0 256 256 0 0 256 256],
        rr_requests =
          [((0, 0, 2), \<lparr>priority = Some NaN, cacheOnly = Some False, preload_flag = None\<rparr>)],
        rr_marks =
          ''tile-layer-render-start''
          # (if w < 256 \<or> h < 256 \<or> 1024 < w \<or> 1024 < h
             then [''tile-layer-buffer-size-changed''] else [])
          @ [''tile-layer-render-end'', ''tile-layer-render'']\<rparr>)"
  by (simp add: render_defs example_simps getTiles_one_tile upto_examples)

lemma fallback_empty:
  "getFallbackTile cache_empty xyz_options 0 0 2 1
   = Some ([((0, 0, 1), cacheOnlyOptions), ((0, 0, 0), cacheOnlyOptions)], None)"
  by (simp add: getFallbackTile.simps example_simps Let_def)

lemma render_one_tile_empty:
  "render xyz_options \<lparr>cv_width = 0, cv_height = 0\<rparr> (render_ctx (view_at 2 128 256) cache_empty)
   = Some (Inr
       \<lparr>rr_frameBuffer = \<lparr>cv_width = 512, cv_height = 512\<rparr>,
        rr_bufferOps = [FillStyle ''#000'', FillRect 0 0 512 512, ClearRect 0 0 256 256],
        rr_contextOps = [DrawBuffer 0 0 256 256 0 0 256 256],
        rr_requests =
          [((0, 0, 2), \<lparr>priority = Some NaN, cacheOnly = Some False, preload_flag = None\<rparr>),
           ((0, 0, 1), cacheOnlyOptions), ((0, 0, 0), cacheOnlyOptions)],
        rr_marks = [''tile-layer-render-start'', ''tile-layer-buffer-size-changed'',
                    ''tile-layer-render-end'', ''tile-layer-render'']\<rparr>)"
  by (simp add: render_defs example_simps getTiles_one_tile upto_examples fallback_empty)

lemma render_outside:
  "render xyz_options \<lparr>cv_width = 0, cv_height = 0\<rparr> (render_ctx (view_at 1 2000 256) cache_full)
   = Some (Inr
       \<lparr>rr_frameBuffer = \<lparr>cv_width = - 2048, cv_height = - 2048\<rparr>,
        rr_bufferOps = [FillStyle ''#000'', FillRect 0 0 (- 2048) (- 2048)],
        rr_contextOps = [DrawBuffer 0 0 (- 1024) (- 1024) 1792 1792 (- 1024) (- 1024)],
        rr_requests = [],
        rr_marks = [''tile-layer-render-start'', ''tile-layer-buffer-size-changed'',
                    ''tile-layer-render-end'', ''tile-layer-render'']\<rparr>)"
  by (simp add: render_defs example_simps getTiles_outside upto_examples outside_grid_def)

subsection \<open>Claims about the render pass\<close>

text \<open>
  On a grid that \<^verbatim>\<open>getTiles\<close> returns with a zoom level that is not negative and on which
  \<open>bottomRight - topLeft + 1\<close> is not negative on either axis, the render call returns; with
  the required width and height being the number of tile columns and of tile rows times
  the tile size, it resizes the buffer exactly when the width or the height is below the
  required one or above four times the required one, assigns twice the required sizes
  then, and leaves the buffer as it was otherwise.
\<close>

lemma render_resize_on_grid:
  assumes grid: "getTiles options (rc_state ctx) (rc_project ctx) = Inr grid"
    and zoom: "0 \<le> tg_zoom grid"
    and cols: "fst (tg_tileTopLeft grid) \<le> fst (tg_tileBottomRight grid) + 1"
    and rows: "snd (tg_tileTopLeft grid) \<le> snd (tg_tileBottomRight grid) + 1"
  shows "\<exists>result.
           render options frameBuffer ctx = Some (Inr result)
           \<and> (if cv_width frameBuffer
                    < real (length [fst (tg_tileTopLeft grid)..fst (tg_tileBottomRight grid)])
                      * tg_tileSize grid
                  \<or> cv_height frameBuffer
                      < real (length [snd (tg_tileTopLeft grid)..snd (tg_tileBottomRight grid)])
                        * tg_tileSize grid
                  \<or> 4 * (real (length [fst (tg_tileTopLeft grid)..fst (tg_tileBottomRight grid)])
                          * tg_tileSize grid) < cv_width frameBuffer
                  \<or> 4 * (real (length [snd (tg_tileTopLeft grid)..snd (tg_tileBottomRight grid)])
                          * tg_tileSize grid) < cv_height frameBuffer
               then cv_width (rr_frameBuffer result)
                      = 2 * (real (length [fst (tg_tileTopLeft grid)..fst (tg_tileBottomRight grid)])
                             * tg_tileSize grid)
                    \<and> cv_height (rr_frameBuffer result)
                      = 2 * (real (length [snd (tg_tileTopLeft grid)..snd (tg_tileBottomRight grid)])
                             * tg_tileSize grid)
                    \<and> ''tile-layer-buffer-size-changed'' \<in> set (rr_marks result)
               else rr_frameBuffer result = frameBuffer
                    \<and> ''tile-layer-buffer-size-changed'' \<notin> set (rr_marks result))"
proof -
  from cols have w: "real (length [fst (tg_tileTopLeft grid)..fst (tg_tileBottomRight grid)])
      * tg_tileSize grid = bufferWidth_of grid"
    by (simp add: bufferWidth_of_def)
  from rows have h: "real (length [snd (tg_tileTopLeft grid)..snd (tg_tileBottomRight grid)])
      * tg_tileSize grid = bufferHeight_of grid"
    by (simp add: bufferHeight_of_def)
  from render_tiles_total [OF zoom] obtain drawn where
    "render_tiles options ctx grid (render_buffer frameBuffer grid) = Some drawn"
    by blast
  then have "render options frameBuffer ctx = Some (Inr
      \<lparr>rr_frameBuffer = render_buffer frameBuffer grid,
       rr_bufferOps = fst drawn,
       rr_contextOps = render_blit ctx grid,
       rr_requests = snd drawn,
       rr_marks =
         ''tile-layer-render-start''
         # (if render_resizes frameBuffer grid then [''tile-layer-buffer-size-changed''] else [])
         @ [''tile-layer-render-end'', ''tile-layer-render'']\<rparr>)"
    unfolding render_Inr_iff [OF grid] by simp
  then show ?thesis
    unfolding w h
    by (simp add: render_buffer_def render_resizes_def Let_def mult.commute)
qed

text \<open>
  Claim C1, at a viewport outside the bounds by more than a tile, with a buffer of width
  and height 0. The grid has no cell, so the required size of the claim, the number of
  cells times the tile size, is 0 on both axes, and a buffer of 0 by 0 is neither below
  it nor above four times it: the claim has no resize. The source computes
  \<open>(2 - 7 + 1) * 256 = - 1024\<close> as required size, \<^verbatim>\<open>buffer.width > bufferWidth * 4\<close> holds, the
  call takes the resize branch and puts its mark, and the number it assigns to both
  dimensions is \<open>- 2048\<close>, which no canvas holds.
\<close>

theorem render_empty_grid_resizes:
  "getTiles xyz_options (view_at 1 2000 256) (\<lambda>p. p) = Inr outside_grid
   \<and> length [fst (tg_tileTopLeft outside_grid)..fst (tg_tileBottomRight outside_grid)] = 0
   \<and> length [snd (tg_tileTopLeft outside_grid)..snd (tg_tileBottomRight outside_grid)] = 0
   \<and> bufferWidth_of outside_grid = - 1024
   \<and> bufferHeight_of outside_grid = - 1024
   \<and> render_resizes \<lparr>cv_width = 0, cv_height = 0\<rparr> outside_grid
   \<and> (\<exists>result.
         render xyz_options \<lparr>cv_width = 0, cv_height = 0\<rparr>
           (render_ctx (view_at 1 2000 256) cache_full) = Some (Inr result)
         \<and> rr_marks result
             = [''tile-layer-render-start'', ''tile-layer-buffer-size-changed'',
                ''tile-layer-render-end'', ''tile-layer-render''])"
  by (simp add: render_outside getTiles_outside)
     (simp add: outside_grid_def bufferWidth_of_def bufferHeight_of_def render_resizes_def
        upto_examples)

text \<open>
  Claim C2, at the tile \<open>(- 1, - 1)\<close> of zoom 2, which is the one cell of the grid when the
  bounds begin at the pixel \<open>- 1000\<close> and a viewport of 256 by 256 is centred on the pixel
  \<open>(- 128, - 128)\<close>. The cache does not hold the tile and holds its parent
  \<open>(\<lfloor>- 1/2\<rfloor>, \<lfloor>- 1/2\<rfloor>) = (- 1, - 1)\<close> of zoom 1. The resolver returns the parent with the scale
  \<open>1/2\<close> and the offsets \<open>(- 1/2, - 1/2)\<close>, which are \<^verbatim>\<open>-0.5 % 1\<close>, where the claim has
  \<open>((- 1 mod 2) / 2, (- 1 mod 2) / 2) = (1/2, 1/2)\<close>, the quadrant of the tile in its parent;
  and the render call draws from the parent image the square at \<open>(- 128, - 128)\<close>, which
  lies outside the image.
\<close>

theorem render_negative_tile_offset:
  "getTiles west_options (view_at 2 (- 128) 256) (\<lambda>p. p)
     = Inr \<lparr>tg_tileSize = 256, tg_tileTopLeft = (- 1, - 1), tg_tileBottomRight = (- 1, - 1),
            tg_zoom = 2, tg_renderedTileSize = 256\<rparr>
   \<and> cache_below_two (opt_source west_options \<lfloor>(- 1) / (2 :: real)\<rfloor> \<lfloor>(- 1) / (2 :: real)\<rfloor> (2 - 1))
       cacheOnlyOptions = Some (- 1, - 1, 1)
   \<and> getFallbackTile cache_below_two west_options (- 1) (- 1) 2 1
       = Some ([((- 1, - 1, 1), cacheOnlyOptions)],
               Some \<lparr>fb_image = (- 1, - 1, 1), fb_scale = 1 / 2,
                     fb_x = - (1 / 2), fb_y = - (1 / 2)\<rparr>)
   \<and> (of_int ((- 1) mod 2) / 2 :: real) = 1 / 2
   \<and> render west_options \<lparr>cv_width = 0, cv_height = 0\<rparr>
       (render_ctx (view_at 2 (- 128) 256) cache_below_two)
       = Some (Inr
           \<lparr>rr_frameBuffer = \<lparr>cv_width = 512, cv_height = 512\<rparr>,
            rr_bufferOps =
              [FillStyle ''#000'', FillRect 0 0 512 512,
               DrawImageSub (- 1, - 1, 1) (- 128) (- 128) 128 128 0 0 256 256],
            rr_contextOps = [DrawBuffer 0 0 256 256 (- 256) (- 256) 256 256],
            rr_requests =
              [((- 1, - 1, 2),
                \<lparr>priority = Some NaN, cacheOnly = Some False, preload_flag = None\<rparr>),
               ((- 1, - 1, 1), cacheOnlyOptions)],
            rr_marks = [''tile-layer-render-start'', ''tile-layer-buffer-size-changed'',
                        ''tile-layer-render-end'', ''tile-layer-render'']\<rparr>)"
proof -
  have floors: "\<lfloor>- (1 / 2) :: real\<rfloor> = - 1" "\<lceil>- (1 / 2) :: real\<rceil> = 0"
    "\<lfloor>- (1 / 256) :: real\<rfloor> = - 1" "\<lfloor>- 1 :: real\<rfloor> = - 1"
    by (simp_all add: floor_eq_iff ceiling_eq_iff)
  have west: "opt_source west_options x y z = (x, y, z)" "tileSize_of west_options = 256"
    "opt_bounds west_options = Some ((- 1000, - 1000), (768, 768))" for x y z
    by (simp_all add: west_options_def tileSize_of_def)
  have grid: "getTiles west_options (view_at 2 (- 128) 256) (\<lambda>p. p)
     = Inr \<lparr>tg_tileSize = 256, tg_tileTopLeft = (- 1, - 1), tg_tileBottomRight = (- 1, - 1),
            tg_zoom = 2, tg_renderedTileSize = 256\<rparr>"
    by (simp add: getTiles_def west renderedTileSize_of_def Let_def view_at_def floors)
  have fallback: "getFallbackTile cache_below_two west_options (- 1) (- 1) 2 1
       = Some ([((- 1, - 1, 1), cacheOnlyOptions)],
               Some \<lparr>fb_image = (- 1, - 1, 1), fb_scale = 1 / 2,
                     fb_x = - (1 / 2), fb_y = - (1 / 2)\<rparr>)"
    by (simp add: getFallbackTile.simps west cache_below_two_def rem1_def Let_def floors)
  have upto: "[- 1..- 1 :: int] = [- 1]"
    by (simp add: upto.simps)
  have rendered: "render west_options \<lparr>cv_width = 0, cv_height = 0\<rparr>
       (render_ctx (view_at 2 (- 128) 256) cache_below_two)
       = Some (Inr
           \<lparr>rr_frameBuffer = \<lparr>cv_width = 512, cv_height = 512\<rparr>,
            rr_bufferOps =
              [FillStyle ''#000'', FillRect 0 0 512 512,
               DrawImageSub (- 1, - 1, 1) (- 128) (- 128) 128 128 0 0 256 256],
            rr_contextOps = [DrawBuffer 0 0 256 256 (- 256) (- 256) 256 256],
            rr_requests =
              [((- 1, - 1, 2),
                \<lparr>priority = Some NaN, cacheOnly = Some False, preload_flag = None\<rparr>),
               ((- 1, - 1, 1), cacheOnlyOptions)],
            rr_marks = [''tile-layer-render-start'', ''tile-layer-buffer-size-changed'',
                        ''tile-layer-render-end'', ''tile-layer-render'']\<rparr>)"
    by (simp add: render_defs example_simps west grid upto fallback cache_below_two_def)
  from grid fallback rendered show ?thesis
    by (simp add: west cache_below_two_def floors)
qed

text \<open>
  Claim C7. In the drawing pass, for every cell of the grid whose own tile the cache does
  not give and for which the fallback resolver returns none, the render call returns (no
  error reaches the host) and among the calls on the buffer is the clearing of exactly
  the footprint of that cell: the square of side tile size at the cell's place in the
  buffer. In debug mode the fill of the same square with the colour \<open>#220000\<close> follows it.
\<close>

theorem render_clears_missing_tile:
  assumes grid: "getTiles options (rc_state ctx) (rc_project ctx) = Inr grid"
    and x: "fst (tg_tileTopLeft grid) \<le> x" "x \<le> fst (tg_tileBottomRight grid)"
    and y: "snd (tg_tileTopLeft grid) \<le> y" "y \<le> snd (tg_tileBottomRight grid)"
    and miss: "rc_getImage ctx
         (fst (render_request options ctx grid
            (subtract_pt (tile_pt (tg_tileBottomRight grid)) (tile_pt (tg_tileTopLeft grid))) x y))
         (snd (render_request options ctx grid
            (subtract_pt (tile_pt (tg_tileBottomRight grid)) (tile_pt (tg_tileTopLeft grid))) x y))
         = None"
    and none: "getFallbackTile (rc_getImage ctx) options (of_int x) (of_int y) (tg_zoom grid) 1
         = Some (requests, None)"
  shows "\<exists>result pre post.
           render options frameBuffer ctx = Some (Inr result)
           \<and> rr_bufferOps result =
               pre
               @ ClearRect (of_int (x - fst (tg_tileTopLeft grid)) * tg_tileSize grid)
                   (of_int (y - snd (tg_tileTopLeft grid)) * tg_tileSize grid)
                   (tg_tileSize grid) (tg_tileSize grid)
               # (if vs_debug (rc_state ctx)
                  then [FillStyle ''#220000'',
                        FillRect (of_int (x - fst (tg_tileTopLeft grid)) * tg_tileSize grid)
                          (of_int (y - snd (tg_tileTopLeft grid)) * tg_tileSize grid)
                          (tg_tileSize grid) (tg_tileSize grid)]
                  else [])
               @ post"
proof -
  let ?gs = "subtract_pt (tile_pt (tg_tileBottomRight grid)) (tile_pt (tg_tileTopLeft grid))"
  let ?xs = "[fst (tg_tileTopLeft grid)..fst (tg_tileBottomRight grid)]"
  let ?ys = "[snd (tg_tileTopLeft grid)..snd (tg_tileBottomRight grid)]"
  let ?inner = "\<lambda>x. forEach ?ys (render_tile options ctx grid ?gs x)"
  let ?cleared = "ClearRect (of_int (x - fst (tg_tileTopLeft grid)) * tg_tileSize grid)
                   (of_int (y - snd (tg_tileTopLeft grid)) * tg_tileSize grid)
                   (tg_tileSize grid) (tg_tileSize grid)
               # (if vs_debug (rc_state ctx)
                  then [FillStyle ''#220000'',
                        FillRect (of_int (x - fst (tg_tileTopLeft grid)) * tg_tileSize grid)
                          (of_int (y - snd (tg_tileTopLeft grid)) * tg_tileSize grid)
                          (tg_tileSize grid) (tg_tileSize grid)]
                  else [])"
  from gft_none_zoom [OF none] have zoom: "0 \<le> tg_zoom grid" by simp
  from render_tiles_total [OF zoom] obtain drawn where
    drawn: "render_tiles options ctx grid (render_buffer frameBuffer grid) = Some drawn"
    by blast
  then obtain start where loops: "forEach ?xs ?inner start = Some drawn"
    unfolding render_tiles_def Let_def by blast
  have "x \<in> set ?xs" using x by simp
  from forEach_visits [OF render_column_appends this loops] obtain s1 s2 pre1 post1 where
    col: "?inner x s1 = Some s2" and post1: "fst drawn = fst s2 @ post1"
    by blast
  have "y \<in> set ?ys" using y by simp
  from forEach_visits [OF render_tile_appends this col]
  obtain t1 t2 pre2 post2 where
    cell: "render_tile options ctx grid ?gs x y t1 = Some t2" and post2: "fst s2 = fst t2 @ post2"
    by blast
  from render_tile_clears [OF miss none cell] have "fst t2 = fst t1 @ ?cleared" .
  with post1 post2 have ops: "fst drawn = fst t1 @ ?cleared @ (post2 @ post1)"
    by simp
  let ?result = "\<lparr>rr_frameBuffer = render_buffer frameBuffer grid,
             rr_bufferOps = fst drawn,
             rr_contextOps = render_blit ctx grid,
             rr_requests = snd drawn,
             rr_marks =
               ''tile-layer-render-start''
               # (if render_resizes frameBuffer grid
                  then [''tile-layer-buffer-size-changed''] else [])
               @ [''tile-layer-render-end'', ''tile-layer-render'']\<rparr>"
  have "render options frameBuffer ctx = Some (Inr ?result)"
    unfolding render_Inr_iff [OF grid] using drawn by simp
  with ops show ?thesis
    by (intro exI [of _ ?result] exI [of _ "fst t1"] exI [of _ "post2 @ post1"]) simp
qed

theorem render_clears_missing_tile_witness:
  "getTiles xyz_options (view_at 2 128 256) (\<lambda>p. p)
     = Inr \<lparr>tg_tileSize = 256, tg_tileTopLeft = (0, 0), tg_tileBottomRight = (0, 0),
            tg_zoom = 2, tg_renderedTileSize = 256\<rparr>
   \<and> cache_empty (0, 0, 2) \<lparr>priority = Some NaN, cacheOnly = Some False, preload_flag = None\<rparr>
       = None
   \<and> getFallbackTile cache_empty xyz_options 0 0 2 1
       = Some ([((0, 0, 1), cacheOnlyOptions), ((0, 0, 0), cacheOnlyOptions)], None)
   \<and> (\<exists>result pre post.
         render xyz_options \<lparr>cv_width = 0, cv_height = 0\<rparr>
           (render_ctx (view_at 2 128 256) cache_empty) = Some (Inr result)
         \<and> rr_bufferOps result = pre @ ClearRect 0 0 256 256 # post)"
proof -
  let ?grid = "\<lparr>tg_tileSize = 256, tg_tileTopLeft = (0, 0), tg_tileBottomRight = (0, 0),
                tg_zoom = 2, tg_renderedTileSize = 256\<rparr>"
  let ?ctx = "render_ctx (view_at 2 128 256) cache_empty"
  have grid: "getTiles xyz_options (rc_state ?ctx) (rc_project ?ctx) = Inr ?grid"
    by (simp add: example_simps getTiles_one_tile)
  have x: "fst (tg_tileTopLeft ?grid) \<le> 0" "0 \<le> fst (tg_tileBottomRight ?grid)"
    and y: "snd (tg_tileTopLeft ?grid) \<le> 0" "0 \<le> snd (tg_tileBottomRight ?grid)"
    by simp_all
  have miss: "rc_getImage ?ctx
         (fst (render_request xyz_options ?ctx ?grid
            (subtract_pt (tile_pt (tg_tileBottomRight ?grid)) (tile_pt (tg_tileTopLeft ?grid))) 0 0))
         (snd (render_request xyz_options ?ctx ?grid
            (subtract_pt (tile_pt (tg_tileBottomRight ?grid)) (tile_pt (tg_tileTopLeft ?grid))) 0 0))
         = None"
    by (simp add: example_simps)
  have none: "getFallbackTile (rc_getImage ?ctx) xyz_options (of_int 0) (of_int 0) (tg_zoom ?grid) 1
         = Some ([((0, 0, 1), cacheOnlyOptions), ((0, 0, 0), cacheOnlyOptions)], None)"
    by (simp add: example_simps fallback_empty)
  from render_clears_missing_tile
         [OF grid x y miss none, of "\<lparr>cv_width = 0, cv_height = 0\<rparr>"]
       getTiles_one_tile fallback_empty
  show ?thesis
    by (simp add: example_simps)
qed

section \<open>Preloading\<close>

lemmas preload_defs = preload_def preload_request_def

text \<open>
  Claim C5, at the grid of three tiles by three of zoom 2, every tile in the cache. For
  the normalisation \<^verbatim>\<open>preload\<close> divides by
  \<^verbatim>\<open>subtract(tileBottomRight, add(tileTopLeft, 1))\<close>, which is \<open>(1, 1)\<close> here, where \<^verbatim>\<open>render\<close>
  divides by \<^verbatim>\<open>subtract(tileBottomRight, tileTopLeft)\<close>, which is \<open>(2, 2)\<close>. For the corner
  tile \<open>(2, 2)\<close> the distance of \<^verbatim>\<open>preload\<close> is \<open>(3 + 3) / 2 = 3\<close>, outside \<open>[0, 1]\<close>, and its
  priority \<open>3 - 3 = 0\<close> is below the priority \<open>2 - 1 = 1\<close> of the request \<^verbatim>\<open>render\<close> makes for
  the same tile; for the tile \<open>(0, 2)\<close> the two priorities are equal.
\<close>

theorem preload_priority_below_render:
  "preload xyz_options \<lparr>cv_width = 0, cv_height = 0\<rparr> (preload_ctx (view_at 2 384 768) cache_full)
   = Inr \<lparr>pr_frameBuffer = \<lparr>cv_width = 1536, cv_height = 1536\<rparr>,
          pr_requests =
            [((0, 0, 2), \<lparr>priority = Some (Num 2), cacheOnly = None, preload_flag = Some True\<rparr>),
             ((0, 1, 2), \<lparr>priority = Some (Num 2), cacheOnly = None, preload_flag = Some True\<rparr>),
             ((0, 2, 2), \<lparr>priority = Some (Num 1), cacheOnly = None, preload_flag = Some True\<rparr>),
             ((1, 0, 2), \<lparr>priority = Some (Num 2), cacheOnly = None, preload_flag = Some True\<rparr>),
             ((1, 1, 2), \<lparr>priority = Some (Num 2), cacheOnly = None, preload_flag = Some True\<rparr>),
             ((1, 2, 2), \<lparr>priority = Some (Num 1), cacheOnly = None, preload_flag = Some True\<rparr>),
             ((2, 0, 2), \<lparr>priority = Some (Num 1), cacheOnly = None, preload_flag = Some True\<rparr>),
             ((2, 1, 2), \<lparr>priority = Some (Num 1), cacheOnly = None, preload_flag = Some True\<rparr>),
             ((2, 2, 2), \<lparr>priority = Some (Num 0), cacheOnly = None, preload_flag = Some True\<rparr>)],
          pr_marks = [''tile-layer-buffer-size-changed'']\<rparr>
   \<and> render xyz_options \<lparr>cv_width = 0, cv_height = 0\<rparr> (render_ctx (view_at 2 384 768) cache_full)
   = Some (Inr
       \<lparr>rr_frameBuffer = \<lparr>cv_width = 1536, cv_height = 1536\<rparr>,
        rr_bufferOps =
          [FillStyle ''#000'', FillRect 0 0 1536 1536,
           DrawImage (0, 0, 2) 0 0 256 256, StrokeStyle ''orange'',
           DrawImage (0, 1, 2) 0 256 256 256, StrokeStyle ''orange'',
           DrawImage (0, 2, 2) 0 512 256 256, StrokeStyle ''orange'',
           DrawImage (1, 0, 2) 256 0 256 256, StrokeStyle ''orange'',
           DrawImage (1, 1, 2) 256 256 256 256, StrokeStyle ''orange'',
           DrawImage (1, 2, 2) 256 512 256 256, StrokeStyle ''orange'',
           DrawImage (2, 0, 2) 512 0 256 256, StrokeStyle ''orange'',
           DrawImage (2, 1, 2) 512 256 256 256, StrokeStyle ''orange'',
           DrawImage (2, 2, 2) 512 512 256 256, StrokeStyle ''orange''],
        rr_contextOps = [DrawBuffer 0 0 768 768 0 0 768 768],
        rr_requests =
          [((0, 0, 2), \<lparr>priority = Some (Num 1), cacheOnly = Some False, preload_flag = None\<rparr>),
           ((0, 1, 2), \<lparr>priority = Some (Num (3 / 2)), cacheOnly = Some False, preload_flag = None\<rparr>),
           ((0, 2, 2), \<lparr>priority = Some (Num 1), cacheOnly = Some False, preload_flag = None\<rparr>),
           ((1, 0, 2), \<lparr>priority = Some (Num (3 / 2)), cacheOnly = Some False, preload_flag = None\<rparr>),
           ((1, 1, 2), \<lparr>priority = Some (Num 2), cacheOnly = Some False, preload_flag = None\<rparr>),
           ((1, 2, 2), \<lparr>priority = Some (Num (3 / 2)), cacheOnly = Some False, preload_flag = None\<rparr>),
           ((2, 0, 2), \<lparr>priority = Some (Num 1), cacheOnly = Some False, preload_flag = None\<rparr>),
           ((2, 1, 2), \<lparr>priority = Some (Num (3 / 2)), cacheOnly = Some False, preload_flag = None\<rparr>),
           ((2, 2, 2), \<lparr>priority = Some (Num 1), cacheOnly = Some False, preload_flag = None\<rparr>)],
        rr_marks = [''tile-layer-render-start'', ''tile-layer-buffer-size-changed'',
                    ''tile-layer-render-end'', ''tile-layer-render'']\<rparr>)"
  by (simp add: preload_defs render_defs example_simps getTiles_nine_tiles upto_examples)

end
